theory Spec2Isabelle
  imports Complex_Main "HOL-Library.Sublist"
begin

section \<open>Data model\<close>

text \<open>
  The dashboard (\<^verbatim>\<open>app.py\<close>) is a Streamlit script around pandas data frames. The
  values that flow through it are modelled as follows.

  \<^item> A parsed JSON body (what \<^verbatim>\<open>response.json()\<close> returns) is a \<open>json\<close> value. An
    object is an association list in insertion order with distinct keys, as a Python
    \<^verbatim>\<open>dict\<close> is; Python's \<^verbatim>\<open>None\<close> is \<open>JNull\<close>. Finite floating-point payloads are
    carried as rationals; \<open>JNaN\<close> is the float NaN, which pandas also uses to fill a
    cell that has no value.
  \<^item> A pandas \<^verbatim>\<open>DataFrame\<close> is a \<open>dataframe\<close>: the length of its row index and its
    ordered columns, each with a label, a dtype and its cells. A frame may have rows
    and no columns (\<^verbatim>\<open>pd.DataFrame([{}])\<close> has shape \<open>(1, 0)\<close>), which is why the row
    count is a field of its own.
  \<^item> A column label is a string (a CSV header, a JSON key, a warehouse column name) or
    a position: the integer label that pandas gives to the columns of a frame built
    from a list of arrays or of scalars.
  \<^item> A string is a list of characters, one per character of the Python string.
\<close>

datatype json =
    JNull
  | JBool bool
  | JInt int
  | JFloat rat
  | JNaN
  | JStr string
  | JArr "json list"
  | JObj "(string \<times> json) list"

datatype dtype =
    Int8 | Int16 | Int32 | Int64
  | UInt8 | UInt16 | UInt32 | UInt64
  | Float16 | Float32 | Float64
  | Bool | Object | Category | String | Datetime64 | Timedelta64

datatype label = Name string | Pos nat

record column =
  col_name :: label
  col_dtype :: dtype
  cells :: "json list"

record dataframe =
  index_len :: nat
  cols :: "column list"

text \<open>\<^verbatim>\<open>len(df)\<close>, \<^verbatim>\<open>df.columns.tolist()\<close> and \<^verbatim>\<open>df.empty\<close> (true when any axis has
  length 0).\<close>

definition len_df :: "dataframe \<Rightarrow> nat" where
  "len_df df = index_len df"

definition columns_tolist :: "dataframe \<Rightarrow> label list" where
  "columns_tolist df = map col_name (cols df)"

definition empty_df :: "dataframe \<Rightarrow> bool" where
  "empty_df df = (index_len df = 0 \<or> cols df = [])"


text \<open>
  Exceptions, by the classes the handlers of the script tell apart:
  \<^verbatim>\<open>requests.exceptions.Timeout\<close>, any other \<^verbatim>\<open>requests.exceptions.RequestException\<close>,
  and any other \<^verbatim>\<open>Exception\<close> (a pandas parser error, a \<^verbatim>\<open>ValueError\<close>, a Snowflake
  error). Each carries its message, \<^verbatim>\<open>str(e)\<close>; for an exception that no handler of
  the script catches the message is not shown by the script, and the model writes the
  name of its class there.
\<close>

datatype pyexn = Timeout string | RequestException string | OtherException string

fun str_exn :: "pyexn \<Rightarrow> string" where
  "str_exn (Timeout m) = m"
| "str_exn (RequestException m) = m"
| "str_exn (OtherException m) = m"

datatype 'a result = Returned 'a | Raised pyexn

datatype status = Completed | Stopped | Crashed pyexn

datatype chart_type = Bar_Chart | Line_Chart | Scatter_Plot | Box_Plot | Histogram

text \<open>The arguments of a plotly express call: kind, \<^verbatim>\<open>x\<close>, \<^verbatim>\<open>y\<close>, \<^verbatim>\<open>color\<close>.\<close>

datatype figure = Figure chart_type "label option" "label option" "label option"

text \<open>
  The libraries are outside the repository. The model follows pandas 2 on the values
  that reach it here (parsed JSON). What the script relies on and the model does not
  fix is a parameter of the model, so that every theorem holds whatever the libraries
  do there:
  \<^item> \<open>big_int_dtype\<close>: the dtype pandas infers for a column of numbers that has an
    integer outside the signed 64-bit range;
  \<^item> \<open>DataFrame_other\<close>: the result of \<^verbatim>\<open>pd.DataFrame(x)\<close> for a dict \<open>x\<close> that has a
    list or a dict among its values (\<open>Inl\<close> is the message of the exception raised);
  \<^item> \<open>px_error\<close>: the message of the exception raised while a figure is built and
    drawn, if any.
\<close>

record library =
  big_int_dtype :: "json list \<Rightarrow> dtype"
  DataFrame_other :: "json \<Rightarrow> string + dataframe"
  px_error :: "dataframe \<Rightarrow> figure \<Rightarrow> string option"

text \<open>What the script shows to the user, in order.\<close>

datatype ui_event =
    Error string
  | Warning string
  | Success string
  | Info string
  | Loaded nat
  | Metric string nat
  | FileCaption string
  | ShowFrame dataframe
  | ShowDescribe "label list"
  | ShowCorrelation "label list"
  | ShowMissing "(label \<times> nat) list"
  | Plot figure
  | DownloadCsv dataframe
  | DownloadExcel dataframe bool
  | DownloadFiltered dataframe
  | Footer "string option"

section \<open>Constructing a frame\<close>

text \<open>\<^verbatim>\<open>pd.DataFrame()\<close>: no rows, no columns.\<close>

definition DataFrame_empty :: dataframe where
  "DataFrame_empty = \<lparr>index_len = 0, cols = []\<rparr>"

fun is_object :: "json \<Rightarrow> bool" where
  "is_object (JObj kvs) = True"
| "is_object j = False"

fun is_array :: "json \<Rightarrow> bool" where
  "is_array (JArr xs) = True"
| "is_array j = False"

fun items_of :: "json \<Rightarrow> (string \<times> json) list" where
  "items_of (JObj kvs) = kvs"
| "items_of j = []"

text \<open>
  The dtype of a column built from Python objects, and the cells as the column holds
  them (\<^verbatim>\<open>lib.maybe_convert_objects\<close>). A string, list or dict makes the column
  \<^verbatim>\<open>object\<close>. Booleans give \<^verbatim>\<open>bool\<close> when every cell is one and \<^verbatim>\<open>object\<close> otherwise.
  Numbers with a missing cell, or with a float, give \<^verbatim>\<open>float64\<close>, and then an integer
  is held as the float of the same value and \<^verbatim>\<open>None\<close> as NaN; \<^verbatim>\<open>None\<close> alone stays an
  \<^verbatim>\<open>object\<close> column. Integers alone give \<^verbatim>\<open>int64\<close>.
\<close>

fun is_bool :: "json \<Rightarrow> bool" where
  "is_bool (JBool b) = True"
| "is_bool j = False"

fun is_int :: "json \<Rightarrow> bool" where
  "is_int (JInt n) = True"
| "is_int j = False"

fun is_float :: "json \<Rightarrow> bool" where
  "is_float (JFloat r) = True"
| "is_float JNaN = True"
| "is_float j = False"

fun big_int :: "json \<Rightarrow> bool" where
  "big_int (JInt n) = (n < - (2 ^ 63) \<or> 2 ^ 63 - 1 < n)"
| "big_int j = False"

fun has_len :: "json \<Rightarrow> bool" where
  "has_len (JStr s) = True"
| "has_len (JArr xs) = True"
| "has_len (JObj kvs) = True"
| "has_len j = False"

fun isnull :: "json \<Rightarrow> bool" where
  "isnull JNull = True"
| "isnull JNaN = True"
| "isnull j = False"

definition infer_dtype :: "library \<Rightarrow> json list \<Rightarrow> dtype" where
  "infer_dtype lib cs =
     (if list_ex has_len cs then Object
      else if list_ex is_bool cs then (if list_all is_bool cs then Bool else Object)
      else if list_ex big_int cs then big_int_dtype lib cs
      else if list_ex isnull cs
        then (if list_ex is_int cs \<or> list_ex is_float cs then Float64 else Object)
      else if list_ex is_float cs then Float64
      else if list_ex is_int cs then Int64
      else Object)"

fun upcast :: "dtype \<Rightarrow> json \<Rightarrow> json" where
  "upcast Float64 (JInt n) = JFloat (of_int n)"
| "upcast Float64 JNull = JNaN"
| "upcast t v = v"

definition mk_column :: "library \<Rightarrow> label \<Rightarrow> json list \<Rightarrow> column" where
  "mk_column lib l raw =
     \<lparr>col_name = l, col_dtype = infer_dtype lib raw,
      cells = map (upcast (infer_dtype lib raw)) raw\<rparr>"

text \<open>A frame with one row per element of \<open>rs\<close> and one column per getter: a label
  and the function that reads the cell of that column from an element.\<close>

definition tabulate :: "library \<Rightarrow> (label \<times> ('r \<Rightarrow> json)) list \<Rightarrow> 'r list \<Rightarrow> dataframe" where
  "tabulate lib getters rs =
     \<lparr>index_len = length rs,
      cols = map (\<lambda>g. mk_column lib (fst g) (map (snd g) rs)) getters\<rparr>"

text \<open>The keys of all records, each once, in the order of first appearance.\<close>

fun first_seen :: "'a list \<Rightarrow> 'a list" where
  "first_seen [] = []"
| "first_seen (k # ks) = k # filter (\<lambda>x. x \<noteq> k) (first_seen ks)"

text \<open>The cell of a record under a column: its value, or NaN when the record has no
  such key.\<close>

definition cell_of :: "(string \<times> json) list \<Rightarrow> string \<Rightarrow> json" where
  "cell_of kvs k = (case map_of kvs k of Some v \<Rightarrow> v | None \<Rightarrow> JNaN)"

text \<open>\<^verbatim>\<open>pd.DataFrame(records)\<close> for a list of dicts: one row per dict, one column per
  key.\<close>

definition from_records :: "library \<Rightarrow> (string \<times> json) list list \<Rightarrow> dataframe" where
  "from_records lib recs =
     tabulate lib
       (map (\<lambda>k. (Name k, \<lambda>r. cell_of r k)) (first_seen (concat (map (map fst) recs))))
       recs"

text \<open>
  \<^verbatim>\<open>pd.DataFrame(rows)\<close> for a list whose first element is a list
  (\<^verbatim>\<open>lib.to_object_array\<close>): each element is read as a sequence, a string as its
  characters and a dict as its keys; the columns are labelled by position up to the
  longest row, and a shorter row has \<^verbatim>\<open>None\<close> in the cells it lacks.
\<close>

fun list_of :: "json \<Rightarrow> json list" where
  "list_of (JArr xs) = xs"
| "list_of (JStr s) = map (\<lambda>c. JStr [c]) s"
| "list_of (JObj kvs) = map (\<lambda>kv. JStr (fst kv)) kvs"
| "list_of j = []"

definition cell_at :: "json list \<Rightarrow> nat \<Rightarrow> json" where
  "cell_at r j = (if j < length r then r ! j else JNull)"

definition width :: "json list list \<Rightarrow> nat" where
  "width rs = foldr (\<lambda>r w. max (length r) w) rs 0"

definition from_rows :: "library \<Rightarrow> json list list \<Rightarrow> dataframe" where
  "from_rows lib rs =
     tabulate lib (map (\<lambda>j. (Pos j, \<lambda>r. cell_at r j)) [0..<width rs]) rs"

text \<open>\<^verbatim>\<open>pd.DataFrame(values)\<close> for a list whose first element is not a list or dict:
  one column, labelled 0, that holds the elements.\<close>

definition from_scalars :: "library \<Rightarrow> json list \<Rightarrow> dataframe" where
  "from_scalars lib xs = tabulate lib [(Pos 0, \<lambda>x. x)] xs"

definition other_frame :: "library \<Rightarrow> json \<Rightarrow> dataframe result" where
  "other_frame lib j =
     (case DataFrame_other lib j of
        Inl m \<Rightarrow> Raised (OtherException m)
      | Inr d \<Rightarrow> Returned d)"

text \<open>
  \<^verbatim>\<open>pd.DataFrame(data)\<close>. \<^verbatim>\<open>None\<close> and the empty containers give the empty frame. A
  list is read by its first element: a dict makes it a list of records, and an element
  that is not a dict then raises \<^verbatim>\<open>AttributeError\<close> (it has no \<^verbatim>\<open>keys\<close>); a list makes
  it a list of rows, and an element without a length then raises \<^verbatim>\<open>TypeError\<close>;
  anything else makes it one column of values. A dict whose values are all scalars
  raises \<^verbatim>\<open>ValueError\<close>, and so does a scalar.
\<close>

fun pd_DataFrame :: "library \<Rightarrow> json \<Rightarrow> dataframe result" where
  "pd_DataFrame lib JNull = Returned DataFrame_empty"
| "pd_DataFrame lib (JArr []) = Returned DataFrame_empty"
| "pd_DataFrame lib (JArr (x # xs)) =
     (if is_object x
      then (if list_all is_object xs
            then Returned (from_records lib (map items_of (x # xs)))
            else Raised (OtherException ''AttributeError''))
      else if is_array x
      then (if list_all has_len xs
            then Returned (from_rows lib (map list_of (x # xs)))
            else Raised (OtherException ''TypeError''))
      else Returned (from_scalars lib (x # xs)))"
| "pd_DataFrame lib (JObj kvs) =
     (if kvs = [] then Returned DataFrame_empty
      else if list_ex (\<lambda>kv. is_array (snd kv) \<or> is_object (snd kv)) kvs
      then other_frame lib (JObj kvs)
      else Raised (OtherException ''ValueError''))"
| "pd_DataFrame lib j =
     Raised (OtherException ''DataFrame constructor not properly called!'')"

section \<open>Source Loaders\<close>

text \<open>
  The loaders are modelled after the call that reaches the outside world; its outcome
  is the argument. Memoisation by \<^verbatim>\<open>st.cache_data\<close> is transparent to the value
  returned and is not modelled.

  \<^verbatim>\<open>load_csv(file)\<close> is \<^verbatim>\<open>return pd.read_csv(file)\<close>, with no handler. Its argument is
  the outcome of \<^verbatim>\<open>pd.read_csv(file)\<close>.
\<close>

definition load_csv :: "pyexn + dataframe \<Rightarrow> dataframe option result \<times> ui_event list" where
  "load_csv parsed =
     (case parsed of
        Inl e \<Rightarrow> (Raised e, [])
      | Inr d \<Rightarrow> (Returned (Some d), []))"

text \<open>\<^verbatim>\<open>load_snowflake_data(query)\<close>: the argument is the outcome of creating the session
  and running \<^verbatim>\<open>session.sql(query).to_pandas()\<close>; \<^verbatim>\<open>except Exception\<close> handles every
  exception of the model.\<close>

definition load_snowflake_data ::
  "pyexn + dataframe \<Rightarrow> dataframe option result \<times> ui_event list" where
  "load_snowflake_data queried =
     (case queried of
        Inl e \<Rightarrow> (Returned None, [Error (''Snowflake connection error: '' @ str_exn e)])
      | Inr d \<Rightarrow> (Returned (Some d), []))"

text \<open>The loop \<^verbatim>\<open>for key in [...]: if key in data: return pd.DataFrame(data[key])\<close>
  finds the value of the first listed key that the object has.\<close>

definition preferred_keys :: "string list" where
  "preferred_keys = [''data'', ''results'', ''items'', ''records'']"

fun first_present :: "string list \<Rightarrow> (string \<times> json) list \<Rightarrow> json option" where
  "first_present [] kvs = None"
| "first_present (key # keys) kvs =
     (case map_of kvs key of
        Some v \<Rightarrow> Some v
      | None \<Rightarrow> first_present keys kvs)"

text \<open>The body of the \<^verbatim>\<open>try\<close> after \<^verbatim>\<open>data = response.json()\<close>.\<close>

fun normalize :: "library \<Rightarrow> json \<Rightarrow> dataframe result" where
  "normalize lib (JArr xs) = pd_DataFrame lib (JArr xs)"
| "normalize lib (JObj kvs) =
     (case first_present preferred_keys kvs of
        Some v \<Rightarrow> pd_DataFrame lib v
      | None \<Rightarrow> pd_DataFrame lib (JArr [JObj kvs]))"
| "normalize lib j = Returned DataFrame_empty"

text \<open>The handlers of \<^verbatim>\<open>fetch_api_data\<close>, tried in order on what its \<^verbatim>\<open>try\<close> block
  produced; an exception of another class leaves the function.\<close>

definition api_handlers :: "dataframe result \<Rightarrow> dataframe option result \<times> ui_event list" where
  "api_handlers tried =
     (case tried of
        Returned d \<Rightarrow> (Returned (Some d), [])
      | Raised (Timeout m) \<Rightarrow>
          (Returned None, [Error ''API request timed out. Please try again.''])
      | Raised (RequestException m) \<Rightarrow> (Returned None, [Error (''API error: '' @ m)])
      | Raised (OtherException m) \<Rightarrow> (Raised (OtherException m), []))"

text \<open>\<^verbatim>\<open>fetch_api_data(endpoint)\<close>: the argument is the outcome of \<^verbatim>\<open>requests.get\<close>,
  \<^verbatim>\<open>raise_for_status\<close> and \<^verbatim>\<open>response.json()\<close>.\<close>

definition fetch_api_data ::
  "library \<Rightarrow> pyexn + json \<Rightarrow> dataframe option result \<times> ui_event list" where
  "fetch_api_data lib response =
     api_handlers (case response of Inl e \<Rightarrow> Raised e | Inr data \<Rightarrow> normalize lib data)"

section \<open>Data Validator\<close>

text \<open>\<^verbatim>\<open>validate_dataframe(df)\<close>: the argument is a frame or \<^verbatim>\<open>None\<close>.\<close>

definition validate_dataframe :: "dataframe option \<Rightarrow> bool \<times> ui_event list" where
  "validate_dataframe d =
     (case d of
        None \<Rightarrow> (False, [Error '':material/error: No data loaded''])
      | Some df \<Rightarrow>
          if empty_df df then (False, [Error '':material/error: No data loaded''])
          else if len_df df < 1 then (False, [Error '':material/error: Dataset is empty''])
          else (True, []))"

section \<open>Column Classifier\<close>

text \<open>\<^verbatim>\<open>df.select_dtypes(include=[...])\<close> keeps the columns whose dtype is listed, in
  their order.\<close>

definition select_dtypes :: "dtype list \<Rightarrow> dataframe \<Rightarrow> dataframe" where
  "select_dtypes include df =
     df\<lparr>cols := filter (\<lambda>c. col_dtype c \<in> set include) (cols df)\<rparr>"

definition get_numeric_columns :: "dataframe \<Rightarrow> label list" where
  "get_numeric_columns df =
     columns_tolist (select_dtypes [Int64, Float64, Int32, Float32] df)"

definition get_categorical_columns :: "dataframe \<Rightarrow> label list" where
  "get_categorical_columns df =
     columns_tolist (select_dtypes [Object, Category, String] df)"

section \<open>Session State and the sidebar\<close>

record session =
  df :: "dataframe option"
  data_source :: "string option"
  uploaded_filename :: "string option"

text \<open>The three \<^verbatim>\<open>setdefault\<close> calls give a new session these values.\<close>

definition initial_session :: session where
  "initial_session = \<lparr>df = None, data_source = None, uploaded_filename = None\<rparr>"

text \<open>
  One run of the sidebar, by the selected source: the uploaded file (its name and the
  outcome of parsing it) or no file; for the warehouse and the API, the outcome of the
  request when the button was pressed, or \<open>None\<close> when it was not.
\<close>

datatype sidebar_input =
    CSV_Upload "(string \<times> (pyexn + dataframe)) option"
  | Snowflake "(pyexn + dataframe) option"
  | API "(pyexn + json) option"

text \<open>The three assignments under \<^verbatim>\<open>if df is not None\<close>, per source. Only the upload
  branch assigns \<^verbatim>\<open>uploaded_filename\<close>.\<close>

definition store_csv :: "session \<Rightarrow> dataframe \<Rightarrow> string \<Rightarrow> session" where
  "store_csv s d name =
     s\<lparr>df := Some d, data_source := Some ''CSV'', uploaded_filename := Some name\<rparr>"

definition store_snowflake :: "session \<Rightarrow> dataframe \<Rightarrow> session" where
  "store_snowflake s d = s\<lparr>df := Some d, data_source := Some ''Snowflake''\<rparr>"

definition store_api :: "session \<Rightarrow> dataframe \<Rightarrow> session" where
  "store_api s d = s\<lparr>df := Some d, data_source := Some ''API''\<rparr>"

text \<open>What follows a loader's return: an exception ends the run with the session as
  it is; \<^verbatim>\<open>None\<close> skips the assignments; a frame is stored.\<close>

definition after_load ::
  "session \<Rightarrow> (dataframe \<Rightarrow> session) \<Rightarrow> dataframe option result \<times> ui_event list \<Rightarrow>
   session \<times> ui_event list \<times> status" where
  "after_load s store loaded =
     (case loaded of
        (Raised e, evs) \<Rightarrow> (s, evs, Crashed e)
      | (Returned None, evs) \<Rightarrow> (s, evs, Completed)
      | (Returned (Some d), evs) \<Rightarrow> (store d, evs @ [Loaded (len_df d)], Completed))"

definition load_section ::
  "library \<Rightarrow> session \<Rightarrow> sidebar_input \<Rightarrow> session \<times> ui_event list \<times> status" where
  "load_section lib s inp =
     (case inp of
        CSV_Upload None \<Rightarrow> (s, [], Completed)
      | CSV_Upload (Some (name, parsed)) \<Rightarrow>
          after_load s (\<lambda>d. store_csv s d name) (load_csv parsed)
      | Snowflake pressed \<Rightarrow>
          (case pressed of
             None \<Rightarrow>
               (s, [Info ''Configure Snowflake credentials in `.streamlit/secrets.toml`''],
                Completed)
           | Some queried \<Rightarrow>
               (case after_load s (store_snowflake s) (load_snowflake_data queried) of
                  (s', evs, st) \<Rightarrow>
                    (s', Info ''Configure Snowflake credentials in `.streamlit/secrets.toml`''
                           # evs, st)))
      | API pressed \<Rightarrow>
          (case pressed of
             None \<Rightarrow> (s, [Info ''Provide a REST API endpoint that returns JSON''], Completed)
           | Some response \<Rightarrow>
               (case after_load s (store_api s) (fetch_api_data lib response) of
                  (s', evs, st) \<Rightarrow>
                    (s', Info ''Provide a REST API endpoint that returns JSON'' # evs, st))))"

text \<open>The Dataset Info block: the caption is shown whenever \<^verbatim>\<open>uploaded_filename\<close> is
  truthy, that is, set and not the empty string.\<close>

definition dataset_info :: "session \<Rightarrow> ui_event list" where
  "dataset_info s =
     (case df s of
        None \<Rightarrow> []
      | Some d \<Rightarrow>
          [Metric ''Rows'' (len_df d), Metric ''Columns'' (length (cols d))] @
          (case uploaded_filename s of
             None \<Rightarrow> []
           | Some name \<Rightarrow> if name = [] then [] else [FileCaption name]))"

definition sidebar ::
  "library \<Rightarrow> session \<Rightarrow> sidebar_input \<Rightarrow> session \<times> ui_event list \<times> status" where
  "sidebar lib s inp =
     (case load_section lib s inp of
        (s', evs, Completed) \<Rightarrow> (s', evs @ dataset_info s', Completed)
      | (s', evs, st) \<Rightarrow> (s', evs, st))"

text \<open>What the loader of the selected source returned in a run, if one was called.\<close>

definition loader_return :: "library \<Rightarrow> sidebar_input \<Rightarrow> dataframe option result option" where
  "loader_return lib inp =
     (case inp of
        CSV_Upload None \<Rightarrow> None
      | CSV_Upload (Some (name, parsed)) \<Rightarrow> Some (fst (load_csv parsed))
      | Snowflake None \<Rightarrow> None
      | Snowflake (Some queried) \<Rightarrow> Some (fst (load_snowflake_data queried))
      | API None \<Rightarrow> None
      | API (Some response) \<Rightarrow> Some (fst (fetch_api_data lib response)))"

section \<open>Tabs\<close>

definition data_tab :: "dataframe \<Rightarrow> ui_event list" where
  "data_tab d =
     [ShowFrame d,
      Metric ''Total Rows'' (len_df d),
      Metric ''Total Columns'' (length (cols d)),
      Metric ''Numeric Columns'' (length (get_numeric_columns d)),
      Metric ''Categorical Columns'' (length (get_categorical_columns d))]"

text \<open>The selections of the Charts tab: the chart type and the values of the select
  boxes that the chosen type shows.\<close>

record chart_input =
  chart_type :: chart_type
  col_x :: "label option"
  col_y :: "label option"
  col_color :: "label option"

text \<open>The plotly express call per chart type.\<close>

fun px_call :: "chart_input \<Rightarrow> figure" where
  "px_call c =
     (case chart_type c of
        Bar_Chart \<Rightarrow> Figure Bar_Chart (col_x c) (col_y c) (col_color c)
      | Line_Chart \<Rightarrow> Figure Line_Chart (col_x c) (col_y c) (col_color c)
      | Scatter_Plot \<Rightarrow> Figure Scatter_Plot (col_x c) (col_y c) (col_color c)
      | Box_Plot \<Rightarrow> Figure Box_Plot (col_x c) (col_y c) None
      | Histogram \<Rightarrow> Figure Histogram (col_x c) None (col_color c))"

text \<open>The Charts tab: the guard on the numeric columns comes first and ends the run
  (\<^verbatim>\<open>st.stop()\<close>); otherwise the figure is built inside \<^verbatim>\<open>try\<close>, and an exception
  becomes an error message.\<close>

definition charts_tab :: "library \<Rightarrow> dataframe \<Rightarrow> chart_input \<Rightarrow> ui_event list \<times> status" where
  "charts_tab lib d c =
     (if length (get_numeric_columns d) = 0
      then ([Warning ''No numeric columns found for visualization''], Stopped)
      else (case px_error lib d (px_call c) of
              None \<Rightarrow> ([Plot (px_call c)], Completed)
            | Some m \<Rightarrow> ([Error (''Error generating chart: '' @ m)], Completed)))"

text \<open>
  The missing-value report. \<^verbatim>\<open>df.isnull().sum()\<close> counts, per column, the cells that
  are \<^verbatim>\<open>None\<close> or NaN; the report keeps the columns whose count is positive. Its
  Percentage column is floating-point arithmetic on the count and is left out.
\<close>

definition isnull_sum :: "dataframe \<Rightarrow> (label \<times> nat) list" where
  "isnull_sum d = map (\<lambda>c. (col_name c, length (filter isnull (cells c)))) (cols d)"

definition missing_df :: "dataframe \<Rightarrow> (label \<times> nat) list" where
  "missing_df d = filter (\<lambda>row. snd row > 0) (isnull_sum d)"

definition missing_values :: "dataframe \<Rightarrow> ui_event list" where
  "missing_values d =
     (if length (missing_df d) > 0 then [ShowMissing (missing_df d)]
      else [Success '':material/check_circle: No missing values found!''])"

definition statistics_tab :: "dataframe \<Rightarrow> ui_event list" where
  "statistics_tab d =
     (if length (get_numeric_columns d) > 0
      then ShowDescribe (get_numeric_columns d) #
           (if length (get_numeric_columns d) > 1
            then [ShowCorrelation (get_numeric_columns d)] else [])
      else [Info ''No numeric columns available for statistical analysis'']) @
     missing_values d"

text \<open>
  The values of a categorical column are compared as pandas compares Python objects in
  \<^verbatim>\<open>unique\<close> and \<^verbatim>\<open>isin\<close>: by hash and equality. Booleans and numbers are equal when
  their values are (\<^verbatim>\<open>True == 1 == 1.0\<close>), NaN matches NaN, and a list or a dict cannot
  be hashed.
\<close>

fun hashable :: "json \<Rightarrow> bool" where
  "hashable (JArr xs) = False"
| "hashable (JObj kvs) = False"
| "hashable j = True"

fun py_num :: "json \<Rightarrow> rat option" where
  "py_num (JBool b) = Some (if b then 1 else 0)"
| "py_num (JInt n) = Some (of_int n)"
| "py_num (JFloat r) = Some r"
| "py_num j = None"

definition py_eq :: "json \<Rightarrow> json \<Rightarrow> bool" where
  "py_eq a b =
     (case (py_num a, py_num b) of
        (Some x, Some y) \<Rightarrow> x = y
      | (None, None) \<Rightarrow> a = b
      | other \<Rightarrow> False)"

text \<open>\<^verbatim>\<open>series.unique().tolist()\<close>: the distinct values in the order of first
  appearance; a cell that cannot be hashed raises \<^verbatim>\<open>TypeError\<close>.\<close>

fun distinct_values :: "json list \<Rightarrow> json list" where
  "distinct_values [] = []"
| "distinct_values (v # vs) = v # filter (\<lambda>x. \<not> py_eq x v) (distinct_values vs)"

definition unique :: "json list \<Rightarrow> json list result" where
  "unique vs =
     (if list_all hashable vs then Returned (distinct_values vs)
      else Raised (OtherException ''TypeError''))"

text \<open>\<^verbatim>\<open>series.isin(values)\<close>: one boolean per cell, or \<^verbatim>\<open>TypeError\<close> when a cell or a
  value cannot be hashed.\<close>

definition isin :: "json list \<Rightarrow> json list \<Rightarrow> bool list result" where
  "isin vs selected =
     (if list_all hashable vs \<and> list_all hashable selected
      then Returned (map (\<lambda>v. list_ex (py_eq v) selected) vs)
      else Raised (OtherException ''TypeError''))"

text \<open>\<^verbatim>\<open>df[flags]\<close> with a boolean series: the frame keeps, in every column, the cells
  of the rows marked true.\<close>

definition keep :: "bool list \<Rightarrow> 'a list \<Rightarrow> 'a list" where
  "keep flags xs = map snd (filter fst (zip flags xs))"

definition boolean_index :: "dataframe \<Rightarrow> bool list \<Rightarrow> dataframe" where
  "boolean_index d flags =
     \<lparr>index_len = length (filter id flags),
      cols = map (\<lambda>c. c\<lparr>cells := keep flags (cells c)\<rparr>) (cols d)\<rparr>"

text \<open>\<^verbatim>\<open>df[filter_col]\<close> as the Export tab uses it: the column with that label. No such
  column raises \<^verbatim>\<open>KeyError\<close>; when several columns have the label the result is a
  frame, which has neither \<^verbatim>\<open>unique\<close> nor a boolean \<^verbatim>\<open>isin\<close> series, and the tab's next
  call raises \<^verbatim>\<open>AttributeError\<close>.\<close>

definition getitem :: "dataframe \<Rightarrow> label \<Rightarrow> column result" where
  "getitem d l =
     (case filter (\<lambda>c. col_name c = l) (cols d) of
        [] \<Rightarrow> Raised (OtherException ''KeyError'')
      | [c] \<Rightarrow> Returned c
      | c # others \<Rightarrow> Raised (OtherException ''AttributeError''))"

text \<open>\<^verbatim>\<open>filtered_df = df[df[filter_col].isin(selected_values)]\<close>.\<close>

definition filtered_df :: "dataframe \<Rightarrow> label \<Rightarrow> json list \<Rightarrow> dataframe result" where
  "filtered_df d filter_col selected_values =
     (case getitem d filter_col of
        Raised e \<Rightarrow> Raised e
      | Returned c \<Rightarrow>
          (case isin (cells c) selected_values of
             Raised e \<Rightarrow> Raised e
           | Returned flags \<Rightarrow> Returned (boolean_index d flags)))"

text \<open>
  The Export tab, given the values of the filter select box and of the multiselect.
  The two download buttons come first. When there is a categorical column,
  \<^verbatim>\<open>df[filter_col].unique().tolist()\<close> is computed for the options of the multiselect,
  and the filtered frame is built when a value is selected. The serialisers and the
  file names (with their timestamp) are outside the model; a download event carries the
  frame that is written. The pandas calls of the tab return new objects and leave the
  frame they read as it is.
\<close>

definition export_tab ::
  "dataframe \<Rightarrow> label \<Rightarrow> json list \<Rightarrow> ui_event list \<times> status" where
  "export_tab d filter_col selected_values =
     (let downloads =
            [DownloadCsv d, DownloadExcel d (length (get_numeric_columns d) > 0)]
      in if length (get_categorical_columns d) > 0
         then (case getitem d filter_col of
                 Raised e \<Rightarrow> (downloads, Crashed e)
               | Returned c \<Rightarrow>
                   (case unique (cells c) of
                      Raised e \<Rightarrow> (downloads, Crashed e)
                    | Returned unique_values \<Rightarrow>
                        if selected_values \<noteq> []
                        then (case filtered_df d filter_col selected_values of
                                Returned f \<Rightarrow>
                                  (downloads @
                                   [Metric ''Filtered Rows'' (len_df f), DownloadFiltered f],
                                   Completed)
                              | Raised e \<Rightarrow> (downloads, Crashed e))
                        else (downloads, Completed)))
         else (downloads, Completed))"

section \<open>The script\<close>

text \<open>The part of the script below the sidebar. It reads \<^verbatim>\<open>st.session_state\<close> and
  assigns nothing to it.\<close>

definition main_content ::
  "library \<Rightarrow> session \<Rightarrow> chart_input \<Rightarrow> label \<Rightarrow> json list \<Rightarrow> ui_event list \<times> status" where
  "main_content lib s c filter_col selected_values =
     (case df s of
        None \<Rightarrow>
          ([Info '':material/arrow_back: Please select a data source from the sidebar to get started''],
           Stopped)
      | Some d \<Rightarrow>
          (case validate_dataframe (Some d) of
             (False, evs) \<Rightarrow> (evs, Stopped)
           | (True, evs) \<Rightarrow>
               (case charts_tab lib d c of
                  (cevs, Completed) \<Rightarrow>
                    (case export_tab d filter_col selected_values of
                       (xevs, Completed) \<Rightarrow>
                         (evs @ data_tab d @ cevs @ statistics_tab d @ xevs @
                          [Footer (data_source s)], Completed)
                     | (xevs, st) \<Rightarrow>
                         (evs @ data_tab d @ cevs @ statistics_tab d @ xevs, st))
                | (cevs, st) \<Rightarrow> (evs @ data_tab d @ cevs, st))))"

text \<open>One run of the script: the sidebar, then the main content on the session the
  sidebar left. The result is the session after the run, what was shown, and how the
  run ended.\<close>

definition script ::
  "library \<Rightarrow> session \<Rightarrow> sidebar_input \<Rightarrow> chart_input \<Rightarrow> label \<Rightarrow> json list \<Rightarrow>
   session \<times> ui_event list \<times> status" where
  "script lib s inp c filter_col selected_values =
     (case sidebar lib s inp of
        (s', evs, Completed) \<Rightarrow>
          (case main_content lib s' c filter_col selected_values of
             (mevs, st) \<Rightarrow> (s', evs @ mevs, st))
      | (s', evs, st) \<Rightarrow> (s', evs, st))"

section \<open>Notions of the specification\<close>

text \<open>The dtypes that are integer or float typed: the specification's numeric
  columns.\<close>

fun integer_or_float_typed :: "dtype \<Rightarrow> bool" where
  "integer_or_float_typed Int8 = True"
| "integer_or_float_typed Int16 = True"
| "integer_or_float_typed Int32 = True"
| "integer_or_float_typed Int64 = True"
| "integer_or_float_typed UInt8 = True"
| "integer_or_float_typed UInt16 = True"
| "integer_or_float_typed UInt32 = True"
| "integer_or_float_typed UInt64 = True"
| "integer_or_float_typed Float16 = True"
| "integer_or_float_typed Float32 = True"
| "integer_or_float_typed Float64 = True"
| "integer_or_float_typed t = False"

text \<open>The table-wide null count: the missing cells of all columns together.\<close>

definition null_count :: "dataframe \<Rightarrow> nat" where
  "null_count d = length (filter isnull (concat (map cells (cols d))))"

text \<open>The row at a position of the index, and all rows in order.\<close>

definition row :: "dataframe \<Rightarrow> nat \<Rightarrow> json list" where
  "row d i = map (\<lambda>c. cells c ! i) (cols d)"


fun is_plot :: "ui_event \<Rightarrow> bool" where
  "is_plot (Plot f) = True"
| "is_plot e = False"


text \<open>
  A library instance for concrete runs. The runs evaluated below do not reach its
  fields: their JSON integers fit 64 bits, no frame is built from a dict of columns,
  and no figure is drawn.
\<close>

definition example_library :: library where
  "example_library =
     \<lparr>big_int_dtype = (\<lambda>cs. Object),
      DataFrame_other = (\<lambda>j. Inl ''unsupported''),
      px_error = (\<lambda>d f. None)\<rparr>"

section \<open>Properties\<close>

subsection \<open>Validator\<close>

text \<open>
  Claim C2, as stated, says that a table is rejected exactly when it is absent or has no
  rows. The code tests \<^verbatim>\<open>df.empty\<close>, which also holds for a frame with rows and no
  columns: the frame of shape \<open>(1, 0)\<close> has one row and is rejected.
\<close>

theorem validate_rejects_one_row_no_columns:
  "len_df \<lparr>index_len = 1, cols = []\<rparr> = 1 \<and>
   fst (validate_dataframe (Some \<lparr>index_len = 1, cols = []\<rparr>)) = False"
  by (simp add: validate_dataframe_def empty_df_def len_df_def)

text \<open>
  Claim C2, amended: the validator accepts exactly the tables that are present and have
  at least one row and at least one column; it rejects an absent table, a table with no
  rows, and a table with no columns.
\<close>

theorem validate_dataframe_iff:
  "fst (validate_dataframe d) \<longleftrightarrow>
     (\<exists>df. d = Some df \<and> 1 \<le> len_df df \<and> cols df \<noteq> [])"
  by (cases d) (auto simp: validate_dataframe_def empty_df_def len_df_def)

theorem validate_dataframe_iff_witness:
  "fst (validate_dataframe (Some \<lparr>index_len = 2,
      cols = [\<lparr>col_name = Name ''a'', col_dtype = Int64, cells = [JInt 1, JInt 2]\<rparr>]\<rparr>))
   \<and> \<not> fst (validate_dataframe None)
   \<and> \<not> fst (validate_dataframe (Some \<lparr>index_len = 0,
      cols = [\<lparr>col_name = Name ''a'', col_dtype = Int64, cells = []\<rparr>]\<rparr>))"
  using validate_dataframe_iff
    [of "Some \<lparr>index_len = 2,
      cols = [\<lparr>col_name = Name ''a'', col_dtype = Int64, cells = [JInt 1, JInt 2]\<rparr>]\<rparr>"]
    validate_dataframe_iff [of None]
    validate_dataframe_iff [of "Some \<lparr>index_len = 0,
      cols = [\<lparr>col_name = Name ''a'', col_dtype = Int64, cells = []\<rparr>]\<rparr>"]
  by (simp add: len_df_def)

subsection \<open>API loader\<close>

lemma first_present_None:
  "first_present ks kvs = None \<longleftrightarrow> list_all (\<lambda>k. map_of kvs k = None) ks"
  by (induction ks) (auto split: option.splits)

lemma len_from_records: "len_df (from_records lib recs) = length recs"
  by (simp add: len_df_def from_records_def tabulate_def)

text \<open>
  Claim C1, as stated, says that the API loader returns a Table with zero rows for the
  body \<open>{}\<close>. The body is a dict, none of the listed keys is in it, and the code
  returns \<^verbatim>\<open>pd.DataFrame([data])\<close>: a frame built from a list of one record, which has
  one row (and, for \<open>{}\<close>, no columns).
\<close>

theorem api_empty_object_single_row:
  "fetch_api_data example_library (Inr (JObj [])) =
     (Returned (Some \<lparr>index_len = 1, cols = []\<rparr>), []) \<and>
   len_df \<lparr>index_len = 1, cols = []\<rparr> \<noteq> 0"
  by (simp add: fetch_api_data_def api_handlers_def preferred_keys_def from_records_def
      tabulate_def len_df_def)

text \<open>
  Claim C1, amended: for an object body with none of the keys data, results, items,
  records, the API loader returns the single-row Table built from the object itself; it
  has exactly one row, also for \<open>{}\<close>, and one column per key of the object. The Table
  with zero rows and zero columns is returned for a body that is neither a list nor an
  object.
\<close>

theorem fetch_api_data_no_preferred_key:
  "(list_all (\<lambda>k. map_of kvs k = None) preferred_keys \<longrightarrow>
      fetch_api_data lib (Inr (JObj kvs)) = (Returned (Some (from_records lib [kvs])), []) \<and>
      len_df (from_records lib [kvs]) = 1 \<and>
      columns_tolist (from_records lib [kvs]) = map Name (first_seen (map fst kvs))) \<and>
   (\<not> is_object body \<and> \<not> is_array body \<longrightarrow>
      fetch_api_data lib (Inr body) = (Returned (Some DataFrame_empty), []) \<and>
      len_df DataFrame_empty = 0)"
proof (intro conjI impI)
  assume "list_all (\<lambda>k. map_of kvs k = None) preferred_keys"
  then have "first_present preferred_keys kvs = None"
    by (simp add: first_present_None)
  then show "fetch_api_data lib (Inr (JObj kvs)) = (Returned (Some (from_records lib [kvs])), [])"
    by (simp add: fetch_api_data_def api_handlers_def)
  show "len_df (from_records lib [kvs]) = 1"
    by (simp add: len_from_records)
  show "columns_tolist (from_records lib [kvs]) = map Name (first_seen (map fst kvs))"
    by (simp add: columns_tolist_def from_records_def tabulate_def mk_column_def comp_def)
next
  assume "\<not> is_object body \<and> \<not> is_array body"
  then show "fetch_api_data lib (Inr body) = (Returned (Some DataFrame_empty), [])"
    by (cases body) (simp_all add: fetch_api_data_def api_handlers_def)
  show "len_df DataFrame_empty = 0"
    by (simp add: len_df_def DataFrame_empty_def)
qed

theorem fetch_api_data_no_preferred_key_witness:
  "fetch_api_data example_library (Inr (JObj [])) =
     (Returned (Some (from_records example_library [[]])), []) \<and>
   len_df (from_records example_library [[]]) = 1 \<and>
   columns_tolist (from_records example_library [[]]) = [] \<and>
   fetch_api_data example_library (Inr (JInt 7)) = (Returned (Some DataFrame_empty), [])"
  using fetch_api_data_no_preferred_key [of "[]" example_library "JInt 7"]
  by (simp add: preferred_keys_def)

subsection \<open>Loader errors\<close>

text \<open>
  Claim C3 says that every loader catches its errors and returns \<^verbatim>\<open>None\<close>. The warehouse
  loader does (\<^verbatim>\<open>except Exception\<close>) and the API loader does for the exceptions of
  \<^verbatim>\<open>requests\<close>, but \<^verbatim>\<open>load_csv\<close> has no handler although its caller tests the result
  against \<^verbatim>\<open>None\<close>: a parser error leaves the loader and ends the run. An exception of
  \<^verbatim>\<open>pd.DataFrame\<close> inside \<^verbatim>\<open>fetch_api_data\<close> is not one of \<^verbatim>\<open>requests\<close> and leaves the
  loader as well.
\<close>

theorem load_csv_error_propagates:
  "load_csv (Inl (OtherException ''Error tokenizing data'')) =
     (Raised (OtherException ''Error tokenizing data''), []) \<and>
   sidebar example_library initial_session
     (CSV_Upload (Some (''bad.csv'', Inl (OtherException ''Error tokenizing data'')))) =
     (initial_session, [], Crashed (OtherException ''Error tokenizing data'')) \<and>
   fetch_api_data example_library (Inr (JObj [(''data'', JInt 5)])) =
     (Raised (OtherException ''DataFrame constructor not properly called!''), [])"
  by (simp add: load_csv_def sidebar_def load_section_def after_load_def fetch_api_data_def
      api_handlers_def preferred_keys_def)

subsection \<open>Provenance\<close>

text \<open>
  Claim C4 says that the provenance is replaced together with the Table on every
  successful load. The upload branch assigns \<^verbatim>\<open>df\<close>, \<^verbatim>\<open>data_source\<close> and
  \<^verbatim>\<open>uploaded_filename\<close>; the warehouse and API branches assign only the first two. After
  an upload of \<open>sales.csv\<close> and then a successful API fetch, the session holds the API
  Table under the file name of the upload (which the Dataset Info block shows).
\<close>

theorem stale_filename_after_api_load:
  "fst (sidebar example_library
          (fst (sidebar example_library initial_session
             (CSV_Upload (Some (''sales.csv'', Inr \<lparr>index_len = 1,
                cols = [\<lparr>col_name = Name ''v'', col_dtype = Int64, cells = [JInt 1]\<rparr>]\<rparr>)))))
          (API (Some (Inr (JArr [JObj [(''a'', JInt 2)]]))))) =
     \<lparr>df = Some \<lparr>index_len = 1,
                  cols = [\<lparr>col_name = Name ''a'', col_dtype = Int64, cells = [JInt 2]\<rparr>]\<rparr>,
      data_source = Some ''API'',
      uploaded_filename = Some ''sales.csv''\<rparr>"
  by (simp add: sidebar_def load_section_def after_load_def load_csv_def store_csv_def
      store_api_def fetch_api_data_def api_handlers_def initial_session_def
      from_records_def tabulate_def mk_column_def infer_dtype_def cell_of_def)

theorem stale_filename_is_shown:
  "dataset_info \<lparr>df = Some \<lparr>index_len = 1,
                  cols = [\<lparr>col_name = Name ''a'', col_dtype = Int64, cells = [JInt 2]\<rparr>]\<rparr>,
      data_source = Some ''API'',
      uploaded_filename = Some ''sales.csv''\<rparr> =
     [Metric ''Rows'' 1, Metric ''Columns'' 1, FileCaption ''sales.csv'']"
  by (simp add: dataset_info_def len_df_def)

subsection \<open>Session state\<close>

lemma after_load_session:
  "fst (after_load s store loaded) =
     (case fst loaded of Returned (Some d) \<Rightarrow> store d | _ \<Rightarrow> s)"
  by (cases loaded) (auto simp: after_load_def split: result.splits option.splits)

lemma fst_case_triple: "fst (case p of (a, b, c) \<Rightarrow> (a, g b, c)) = fst p"
  by (cases p) auto

lemma load_section_session:
  "fst (load_section lib s inp) =
     (case loader_return lib inp of
        Some (Returned (Some d)) \<Rightarrow>
          (case inp of
             CSV_Upload up \<Rightarrow> store_csv s d (fst (the up))
           | Snowflake pressed \<Rightarrow> store_snowflake s d
           | API pressed \<Rightarrow> store_api s d)
      | _ \<Rightarrow> s)"
proof (cases inp)
  case (CSV_Upload up)
  then show ?thesis
    by (cases up)
       (auto simp: load_section_def loader_return_def after_load_session
             split: result.splits option.splits)
next
  case (Snowflake pressed)
  then show ?thesis
    by (cases pressed)
       (auto simp: load_section_def loader_return_def after_load_session fst_case_triple
             split: result.splits option.splits)
next
  case (API pressed)
  then show ?thesis
    by (cases pressed)
       (auto simp: load_section_def loader_return_def after_load_session fst_case_triple
             split: result.splits option.splits)
qed

lemma sidebar_session: "fst (sidebar lib s inp) = fst (load_section lib s inp)"
  by (cases "load_section lib s inp") (auto simp: sidebar_def split: status.splits)

lemma script_session: "fst (script lib s inp c fc sv) = fst (sidebar lib s inp)"
  by (cases "sidebar lib s inp")
     (auto simp: script_def split: status.splits prod.splits)

text \<open>
  Claim C8: when the loader of a run returns no table (\<^verbatim>\<open>None\<close>, or an exception ends
  the run), the session after the run is the session before it, Table and provenance
  alike; when it returns a table, that table is the stored one.
\<close>

theorem failed_load_keeps_session:
  "((\<forall>d. loader_return lib inp \<noteq> Some (Returned (Some d))) \<longrightarrow>
      fst (script lib s inp c fc sv) = s) \<and>
   (loader_return lib inp = Some (Returned (Some d)) \<longrightarrow>
      df (fst (script lib s inp c fc sv)) = Some d)"
  by (cases inp)
     (auto simp: script_session sidebar_session load_section_session
        store_csv_def store_snowflake_def store_api_def
        split: option.splits result.splits)

theorem failed_load_keeps_session_witness:
  "fst (script example_library
          \<lparr>df = Some \<lparr>index_len = 1,
              cols = [\<lparr>col_name = Name ''v'', col_dtype = Int64, cells = [JInt 1]\<rparr>]\<rparr>,
           data_source = Some ''CSV'', uploaded_filename = Some ''sales.csv''\<rparr>
          (Snowflake (Some (Inl (OtherException ''no connection''))))
          \<lparr>chart_type = Histogram, col_x = Some (Name ''v''), col_y = None, col_color = None\<rparr>
          (Name []) []) =
     \<lparr>df = Some \<lparr>index_len = 1,
         cols = [\<lparr>col_name = Name ''v'', col_dtype = Int64, cells = [JInt 1]\<rparr>]\<rparr>,
      data_source = Some ''CSV'', uploaded_filename = Some ''sales.csv''\<rparr> \<and>
   df (fst (script example_library initial_session
          (Snowflake (Some (Inr \<lparr>index_len = 1,
              cols = [\<lparr>col_name = Name ''v'', col_dtype = Int64, cells = [JInt 1]\<rparr>]\<rparr>)))
          \<lparr>chart_type = Histogram, col_x = Some (Name ''v''), col_y = None, col_color = None\<rparr>
          (Name []) [])) =
     Some \<lparr>index_len = 1,
         cols = [\<lparr>col_name = Name ''v'', col_dtype = Int64, cells = [JInt 1]\<rparr>]\<rparr>"
proof -
  have failed: "\<forall>d. loader_return example_library
      (Snowflake (Some (Inl (OtherException ''no connection'')))) \<noteq> Some (Returned (Some d))"
    by (simp add: loader_return_def load_snowflake_data_def)
  have loaded: "loader_return example_library
      (Snowflake (Some (Inr \<lparr>index_len = 1,
              cols = [\<lparr>col_name = Name ''v'', col_dtype = Int64, cells = [JInt 1]\<rparr>]\<rparr>))) =
      Some (Returned (Some \<lparr>index_len = 1,
              cols = [\<lparr>col_name = Name ''v'', col_dtype = Int64, cells = [JInt 1]\<rparr>]\<rparr>))"
    by (simp add: loader_return_def load_snowflake_data_def)
  show ?thesis
    using failed loaded
      failed_load_keeps_session [of example_library
        "Snowflake (Some (Inl (OtherException ''no connection'')))"]
      failed_load_keeps_session [of example_library
        "Snowflake (Some (Inr \<lparr>index_len = 1,
              cols = [\<lparr>col_name = Name ''v'', col_dtype = Int64, cells = [JInt 1]\<rparr>]\<rparr>))"]
    by blast
qed

subsection \<open>Charts\<close>

lemma data_tab_no_plot: "\<not> list_ex is_plot (data_tab d)"
  by (simp add: data_tab_def)

lemma validate_events_no_plot: "\<not> list_ex is_plot (snd (validate_dataframe x))"
  by (auto simp: validate_dataframe_def split: option.splits)

text \<open>
  Claim C9: for a table with no numeric column the Charts tab shows the warning and
  stops the run, whatever chart type and columns are selected; no figure is built, in
  the tab or in the rest of the run.
\<close>

theorem no_numeric_columns_refused:
  "get_numeric_columns d = [] \<longrightarrow>
     charts_tab lib d c = ([Warning ''No numeric columns found for visualization''], Stopped) \<and>
     (df s = Some d \<longrightarrow>
        \<not> list_ex is_plot (fst (main_content lib s c fc sv)) \<and>
        snd (main_content lib s c fc sv) = Stopped)"
proof (intro impI conjI)
  assume n: "get_numeric_columns d = []"
  then show ct: "charts_tab lib d c =
      ([Warning ''No numeric columns found for visualization''], Stopped)"
    by (simp add: charts_tab_def)
  assume s: "df s = Some d"
  obtain ok evs where v: "validate_dataframe (Some d) = (ok, evs)"
    by (cases "validate_dataframe (Some d)")
  have evs: "\<not> list_ex is_plot evs"
    using validate_events_no_plot [of "Some d"] v by simp
  show "\<not> list_ex is_plot (fst (main_content lib s c fc sv))"
    using s v ct evs data_tab_no_plot [of d]
    by (cases ok) (simp_all add: main_content_def)
  show "snd (main_content lib s c fc sv) = Stopped"
    using s v ct by (cases ok) (simp_all add: main_content_def)
qed

theorem no_numeric_columns_refused_witness:
  "get_numeric_columns \<lparr>index_len = 1,
      cols = [\<lparr>col_name = Name ''name'', col_dtype = Object, cells = [JStr ''x'']\<rparr>]\<rparr> = [] \<and>
   charts_tab example_library \<lparr>index_len = 1,
      cols = [\<lparr>col_name = Name ''name'', col_dtype = Object, cells = [JStr ''x'']\<rparr>]\<rparr>
      \<lparr>chart_type = Bar_Chart, col_x = Some (Name ''name''), col_y = None, col_color = None\<rparr> =
     ([Warning ''No numeric columns found for visualization''], Stopped) \<and>
   snd (main_content example_library
      \<lparr>df = Some \<lparr>index_len = 1,
          cols = [\<lparr>col_name = Name ''name'', col_dtype = Object, cells = [JStr ''x'']\<rparr>]\<rparr>,
       data_source = Some ''API'', uploaded_filename = None\<rparr>
      \<lparr>chart_type = Bar_Chart, col_x = Some (Name ''name''), col_y = None, col_color = None\<rparr>
      (Name ''name'') []) = Stopped"
proof -
  have n: "get_numeric_columns \<lparr>index_len = 1,
      cols = [\<lparr>col_name = Name ''name'', col_dtype = Object, cells = [JStr ''x'']\<rparr>]\<rparr> = []"
    by (simp add: get_numeric_columns_def select_dtypes_def columns_tolist_def)
  show ?thesis
    using n no_numeric_columns_refused
      [of "\<lparr>index_len = 1,
          cols = [\<lparr>col_name = Name ''name'', col_dtype = Object, cells = [JStr ''x'']\<rparr>]\<rparr>"
          example_library
          "\<lparr>chart_type = Bar_Chart, col_x = Some (Name ''name''), col_y = None, col_color = None\<rparr>"
          "\<lparr>df = Some \<lparr>index_len = 1,
          cols = [\<lparr>col_name = Name ''name'', col_dtype = Object, cells = [JStr ''x'']\<rparr>]\<rparr>,
       data_source = Some ''API'', uploaded_filename = None\<rparr>" "Name ''name''" "[]"]
    by simp
qed

subsection \<open>Missing values\<close>

lemma filter_isnull_empty: "filter isnull xs = [] \<longleftrightarrow> \<not> list_ex isnull xs"
  by (induction xs) auto

lemma missing_df_columns:
  "map fst (missing_df d) = map col_name (filter (\<lambda>c. list_ex isnull (cells c)) (cols d))"
proof -
  have "map fst (filter (\<lambda>r. snd r > 0) (map (\<lambda>c. (col_name c, length (filter isnull (cells c)))) cs))
      = map col_name (filter (\<lambda>c. list_ex isnull (cells c)) cs)" for cs :: "column list"
    by (induction cs) (auto simp: filter_isnull_empty)
  then show ?thesis by (simp add: missing_df_def isnull_sum_def)
qed

lemma sum_positive_rows:
  "sum_list (map snd (filter (\<lambda>r. snd r > 0) rs)) = sum_list (map snd rs)"
  for rs :: "(label \<times> nat) list"
  by (induction rs) auto

lemma null_count_sum: "null_count d = sum_list (map snd (isnull_sum d))"
proof -
  have "length (filter isnull (concat (map cells cs))) =
        sum_list (map snd (map (\<lambda>c. (col_name c, length (filter isnull (cells c)))) cs))"
    for cs :: "column list"
    by (induction cs) auto
  then show ?thesis by (simp add: null_count_def isnull_sum_def)
qed

text \<open>
  Claim C7: the missing-value report lists exactly the columns that have at least one
  missing entry, in the order of the columns, each with a positive count; the reported
  counts add up to the number of missing cells of the whole table; and when no column
  has a missing entry the message "No missing values found!" is shown instead of the
  report.
\<close>

theorem missing_value_report:
  "map fst (missing_df d) = map col_name (filter (\<lambda>c. list_ex isnull (cells c)) (cols d)) \<and>
   list_all (\<lambda>r. snd r > 0) (missing_df d) \<and>
   sum_list (map snd (missing_df d)) = null_count d \<and>
   missing_values d =
     (if list_ex (\<lambda>c. list_ex isnull (cells c)) (cols d)
      then [ShowMissing (missing_df d)]
      else [Success '':material/check_circle: No missing values found!''])"
proof (intro conjI)
  show cols: "map fst (missing_df d) =
      map col_name (filter (\<lambda>c. list_ex isnull (cells c)) (cols d))"
    by (rule missing_df_columns)
  show "list_all (\<lambda>r. snd r > 0) (missing_df d)"
    by (simp add: missing_df_def list_all_iff)
  show "sum_list (map snd (missing_df d)) = null_count d"
    by (simp add: null_count_sum missing_df_def sum_positive_rows)
  have "missing_df d \<noteq> [] \<longleftrightarrow> list_ex (\<lambda>c. list_ex isnull (cells c)) (cols d)"
  proof -
    have "missing_df d \<noteq> [] \<longleftrightarrow> map fst (missing_df d) \<noteq> []" by simp
    also have "\<dots> \<longleftrightarrow> filter (\<lambda>c. list_ex isnull (cells c)) (cols d) \<noteq> []"
      by (simp add: cols)
    also have "\<dots> \<longleftrightarrow> list_ex (\<lambda>c. list_ex isnull (cells c)) (cols d)"
      by (simp add: filter_empty_conv list_ex_iff)
    finally show ?thesis .
  qed
  then show "missing_values d =
     (if list_ex (\<lambda>c. list_ex isnull (cells c)) (cols d)
      then [ShowMissing (missing_df d)]
      else [Success '':material/check_circle: No missing values found!''])"
    by (simp add: missing_values_def)
qed

theorem missing_value_report_witness:
  "missing_values \<lparr>index_len = 2,
      cols = [\<lparr>col_name = Name ''a'', col_dtype = Float64, cells = [JFloat 1, JNaN]\<rparr>,
              \<lparr>col_name = Name ''b'', col_dtype = Object, cells = [JStr ''x'', JStr ''y'']\<rparr>,
              \<lparr>col_name = Name ''c'', col_dtype = Object, cells = [JNull, JNull]\<rparr>]\<rparr> =
     [ShowMissing [(Name ''a'', 1), (Name ''c'', 2)]] \<and>
   null_count \<lparr>index_len = 2,
      cols = [\<lparr>col_name = Name ''a'', col_dtype = Float64, cells = [JFloat 1, JNaN]\<rparr>,
              \<lparr>col_name = Name ''b'', col_dtype = Object, cells = [JStr ''x'', JStr ''y'']\<rparr>,
              \<lparr>col_name = Name ''c'', col_dtype = Object, cells = [JNull, JNull]\<rparr>]\<rparr> = 3 \<and>
   missing_values \<lparr>index_len = 1,
      cols = [\<lparr>col_name = Name ''b'', col_dtype = Object, cells = [JStr ''x'']\<rparr>]\<rparr> =
     [Success '':material/check_circle: No missing values found!'']"
  using missing_value_report [of "\<lparr>index_len = 2,
      cols = [\<lparr>col_name = Name ''a'', col_dtype = Float64, cells = [JFloat 1, JNaN]\<rparr>,
              \<lparr>col_name = Name ''b'', col_dtype = Object, cells = [JStr ''x'', JStr ''y'']\<rparr>,
              \<lparr>col_name = Name ''c'', col_dtype = Object, cells = [JNull, JNull]\<rparr>]\<rparr>"]
    missing_value_report [of "\<lparr>index_len = 1,
      cols = [\<lparr>col_name = Name ''b'', col_dtype = Object, cells = [JStr ''x'']\<rparr>]\<rparr>"]
  by (simp add: missing_df_def isnull_sum_def)

subsection \<open>Normalisation of the API body\<close>















subsection \<open>Column Classifier\<close>

text \<open>
  Claim C6, as stated, says that every integer or float typed column is in the numeric
  list. The code lists four dtypes, int64, float64, int32 and float32; a column of
  another integer or float dtype (an unsigned 64-bit column, as pandas infers for CSV
  values above the signed range) is in neither list.
\<close>

theorem unsigned_column_not_numeric:
  "integer_or_float_typed
     (col_dtype \<lparr>col_name = Name ''id'', col_dtype = UInt64,
        cells = [JInt 18446744073709551615]\<rparr>) \<and>
   get_numeric_columns \<lparr>index_len = 1,
      cols = [\<lparr>col_name = Name ''id'', col_dtype = UInt64,
               cells = [JInt 18446744073709551615]\<rparr>]\<rparr> = []"
  by (simp add: get_numeric_columns_def select_dtypes_def columns_tolist_def)

lemma columns_select_dtypes:
  "columns_tolist (select_dtypes ts d) =
     map col_name (filter (\<lambda>c. col_dtype c \<in> set ts) (cols d))"
  by (simp add: columns_tolist_def select_dtypes_def)

lemma selected_name_iff:
  assumes "distinct (map col_name cs)" and "c \<in> set cs"
  shows "col_name c \<in> set (map col_name (filter P cs)) \<longleftrightarrow> P c"
proof
  assume "col_name c \<in> set (map col_name (filter P cs))"
  then obtain a where a: "a \<in> set cs" "P a" "col_name a = col_name c"
    by auto
  from assms a(1) a(3) have "a = c"
    by (meson distinct_map inj_onD)
  with a(2) show "P c" by simp
next
  assume "P c"
  with assms(2) show "col_name c \<in> set (map col_name (filter P cs))"
    by auto
qed

text \<open>
  Claim C6, amended: for every table the numeric list is exactly the labels, in column
  order, of the columns of dtype int64, float64, int32 or float32, and the categorical
  list exactly those of the columns of dtype object, category or string. Both are
  order-preserving sublists of the column labels, so their union is a subset of all
  columns, and no column is selected for both. When the labels of the table are
  distinct, the two lists are disjoint and a column's label is in the numeric
  (categorical) list if and only if its dtype is one of the four (three) listed.
\<close>

theorem column_classifier:
  "get_numeric_columns d =
     map col_name (filter (\<lambda>c. col_dtype c \<in> {Int64, Float64, Int32, Float32}) (cols d)) \<and>
   get_categorical_columns d =
     map col_name (filter (\<lambda>c. col_dtype c \<in> {Object, Category, String}) (cols d)) \<and>
   subseq (get_numeric_columns d) (columns_tolist d) \<and>
   subseq (get_categorical_columns d) (columns_tolist d) \<and>
   set (get_numeric_columns d) \<union> set (get_categorical_columns d) \<subseteq> set (columns_tolist d) \<and>
   set (cols (select_dtypes [Int64, Float64, Int32, Float32] d)) \<inter>
     set (cols (select_dtypes [Object, Category, String] d)) = {} \<and>
   (distinct (columns_tolist d) \<longrightarrow>
      set (get_numeric_columns d) \<inter> set (get_categorical_columns d) = {} \<and>
      (\<forall>c \<in> set (cols d).
         (col_name c \<in> set (get_numeric_columns d) \<longleftrightarrow>
            col_dtype c \<in> {Int64, Float64, Int32, Float32}) \<and>
         (col_name c \<in> set (get_categorical_columns d) \<longleftrightarrow>
            col_dtype c \<in> {Object, Category, String}))) \<and>
   (\<forall>c \<in> set (cols d).
      (col_dtype c \<in> {Int64, Float64, Int32, Float32} \<longrightarrow>
         col_name c \<in> set (get_numeric_columns d)) \<and>
      (col_dtype c \<in> {Object, Category, String} \<longrightarrow>
         col_name c \<in> set (get_categorical_columns d)))"
proof -
  let ?num = "\<lambda>c. col_dtype c \<in> {Int64, Float64, Int32, Float32}"
  let ?cat = "\<lambda>c. col_dtype c \<in> {Object, Category, String}"
  have n: "get_numeric_columns d = map col_name (filter ?num (cols d))"
    by (simp add: get_numeric_columns_def columns_select_dtypes)
  have c: "get_categorical_columns d = map col_name (filter ?cat (cols d))"
    by (simp add: get_categorical_columns_def columns_select_dtypes)
  have s1: "subseq (get_numeric_columns d) (columns_tolist d)"
    unfolding n by (simp add: columns_tolist_def subseq_map)
  have s2: "subseq (get_categorical_columns d) (columns_tolist d)"
    unfolding c by (simp add: columns_tolist_def subseq_map)
  have u: "set (get_numeric_columns d) \<union> set (get_categorical_columns d) \<subseteq> set (columns_tolist d)"
    unfolding n c by (auto simp: columns_tolist_def)
  have p: "set (cols (select_dtypes [Int64, Float64, Int32, Float32] d)) \<inter>
     set (cols (select_dtypes [Object, Category, String] d)) = {}"
    by (auto simp: select_dtypes_def)
  have m: "\<forall>c \<in> set (cols d).
      (?num c \<longrightarrow> col_name c \<in> set (get_numeric_columns d)) \<and>
      (?cat c \<longrightarrow> col_name c \<in> set (get_categorical_columns d))"
    unfolding n c by auto
  have dj: "set (get_numeric_columns d) \<inter> set (get_categorical_columns d) = {} \<and>
      (\<forall>c \<in> set (cols d).
         (col_name c \<in> set (get_numeric_columns d) \<longleftrightarrow> ?num c) \<and>
         (col_name c \<in> set (get_categorical_columns d) \<longleftrightarrow> ?cat c))"
    if dist: "distinct (columns_tolist d)"
  proof -
    from dist have dn: "distinct (map col_name (cols d))"
      by (simp add: columns_tolist_def)
    have iff: "\<forall>c \<in> set (cols d).
         (col_name c \<in> set (get_numeric_columns d) \<longleftrightarrow> ?num c) \<and>
         (col_name c \<in> set (get_categorical_columns d) \<longleftrightarrow> ?cat c)"
    proof (intro ballI conjI)
      fix a assume a: "a \<in> set (cols d)"
      show "col_name a \<in> set (get_numeric_columns d) \<longleftrightarrow> ?num a"
        unfolding n by (rule selected_name_iff [OF dn a])
      show "col_name a \<in> set (get_categorical_columns d) \<longleftrightarrow> ?cat a"
        unfolding c by (rule selected_name_iff [OF dn a])
    qed
    have "set (get_numeric_columns d) \<inter> set (get_categorical_columns d) = {}"
    proof (rule ccontr)
      assume "\<not> ?thesis"
      then obtain l where l: "l \<in> set (get_numeric_columns d)" "l \<in> set (get_categorical_columns d)"
        by auto
      from l(1) obtain a where a: "a \<in> set (cols d)" "col_name a = l"
        unfolding n by auto
      with iff l have "?num a" "?cat a" by blast+
      then show False by auto
    qed
    with iff show ?thesis by simp
  qed
  show ?thesis
  proof (intro conjI impI)
    show "get_numeric_columns d = map col_name (filter ?num (cols d))" by (rule n)
    show "get_categorical_columns d = map col_name (filter ?cat (cols d))" by (rule c)
    show "subseq (get_numeric_columns d) (columns_tolist d)" by (rule s1)
    show "subseq (get_categorical_columns d) (columns_tolist d)" by (rule s2)
    show "set (get_numeric_columns d) \<union> set (get_categorical_columns d) \<subseteq> set (columns_tolist d)"
      by (rule u)
    show "set (cols (select_dtypes [Int64, Float64, Int32, Float32] d)) \<inter>
     set (cols (select_dtypes [Object, Category, String] d)) = {}" by (rule p)
    show "\<forall>c \<in> set (cols d).
      (?num c \<longrightarrow> col_name c \<in> set (get_numeric_columns d)) \<and>
      (?cat c \<longrightarrow> col_name c \<in> set (get_categorical_columns d))" by (rule m)
  next
    assume dist: "distinct (columns_tolist d)"
    show "set (get_numeric_columns d) \<inter> set (get_categorical_columns d) = {}"
      using dj [OF dist] by (rule conjunct1)
    show "\<forall>c \<in> set (cols d).
         (col_name c \<in> set (get_numeric_columns d) \<longleftrightarrow> ?num c) \<and>
         (col_name c \<in> set (get_categorical_columns d) \<longleftrightarrow> ?cat c)"
      using dj [OF dist] by (rule conjunct2)
  qed
qed

theorem column_classifier_witness:
  "get_numeric_columns \<lparr>index_len = 2,
      cols = [\<lparr>col_name = Name ''date'', col_dtype = Object,
                 cells = [JStr ''2024-01-01'', JStr ''2024-01-02'']\<rparr>,
              \<lparr>col_name = Name ''category'', col_dtype = Object, cells = [JStr ''A'', JStr ''B'']\<rparr>,
              \<lparr>col_name = Name ''value'', col_dtype = Int64, cells = [JInt 100, JInt 150]\<rparr>,
              \<lparr>col_name = Name ''seen'', col_dtype = Bool, cells = [JBool True, JBool False]\<rparr>]\<rparr> =
     [Name ''value''] \<and>
   get_categorical_columns \<lparr>index_len = 2,
      cols = [\<lparr>col_name = Name ''date'', col_dtype = Object,
                 cells = [JStr ''2024-01-01'', JStr ''2024-01-02'']\<rparr>,
              \<lparr>col_name = Name ''category'', col_dtype = Object, cells = [JStr ''A'', JStr ''B'']\<rparr>,
              \<lparr>col_name = Name ''value'', col_dtype = Int64, cells = [JInt 100, JInt 150]\<rparr>,
              \<lparr>col_name = Name ''seen'', col_dtype = Bool, cells = [JBool True, JBool False]\<rparr>]\<rparr> =
     [Name ''date'', Name ''category''] \<and>
   set [Name ''value''] \<inter> set [Name ''date'', Name ''category''] = {}"
proof -
  let ?d = "\<lparr>index_len = 2,
      cols = [\<lparr>col_name = Name ''date'', col_dtype = Object,
                 cells = [JStr ''2024-01-01'', JStr ''2024-01-02'']\<rparr>,
              \<lparr>col_name = Name ''category'', col_dtype = Object, cells = [JStr ''A'', JStr ''B'']\<rparr>,
              \<lparr>col_name = Name ''value'', col_dtype = Int64, cells = [JInt 100, JInt 150]\<rparr>,
              \<lparr>col_name = Name ''seen'', col_dtype = Bool, cells = [JBool True, JBool False]\<rparr>]\<rparr>"
  have dist: "distinct (columns_tolist ?d)"
    by (simp add: columns_tolist_def)
  note cc = column_classifier [of ?d]
  have n: "get_numeric_columns ?d =
      map col_name (filter (\<lambda>c. col_dtype c \<in> {Int64, Float64, Int32, Float32}) (cols ?d))"
    by (rule cc [THEN conjunct1])
  have c: "get_categorical_columns ?d =
      map col_name (filter (\<lambda>c. col_dtype c \<in> {Object, Category, String}) (cols ?d))"
    by (rule cc [THEN conjunct2, THEN conjunct1])
  have imp: "distinct (columns_tolist ?d) \<longrightarrow>
      set (get_numeric_columns ?d) \<inter> set (get_categorical_columns ?d) = {} \<and>
      (\<forall>c \<in> set (cols ?d).
         (col_name c \<in> set (get_numeric_columns ?d) \<longleftrightarrow>
            col_dtype c \<in> {Int64, Float64, Int32, Float32}) \<and>
         (col_name c \<in> set (get_categorical_columns ?d) \<longleftrightarrow>
            col_dtype c \<in> {Object, Category, String}))"
    by (rule cc [THEN conjunct2, THEN conjunct2, THEN conjunct2, THEN conjunct2,
          THEN conjunct2, THEN conjunct2, THEN conjunct1])
  from n have n': "get_numeric_columns ?d = [Name ''value'']" by simp
  from c have c': "get_categorical_columns ?d = [Name ''date'', Name ''category'']" by simp
  from imp dist have "set (get_numeric_columns ?d) \<inter> set (get_categorical_columns ?d) = {}"
    by (elim impE conjE) assumption
  with n' c' show ?thesis by simp
qed

subsection \<open>Export\<close>












end
